theory Spec2Isabelle
  imports Complex_Main "HOL-Library.Multiset"
begin

section \<open>Numbers, timestamps and data frames\<close>

text \<open>
  The analytics engine of Trackify (\<^verbatim>\<open>server/services/analytics/analytics.py\<close>) computes on
  Python floats held in pandas data frames. Finite floats are idealised as real numbers; the
  one non-finite value that reaches the engine from the stored JSON, NaN (a missing cell),
  is \<open>None\<close> of \<open>real option\<close>. Comparisons with NaN are false, arithmetic on NaN is NaN.

  A timestamp is the number of seconds since a fixed epoch (the stored dates have a
  resolution of one second). The \<^verbatim>\<open>.days\<close> of a \<^verbatim>\<open>timedelta\<close> is the floor of
  the difference divided by 86400, which is \<open>div\<close> on \<open>int\<close>.
\<close>

type_synonym fval = "real option"

definition nan_less :: "fval \<Rightarrow> fval \<Rightarrow> bool" where
  "nan_less a b = (case a of None \<Rightarrow> False | Some x \<Rightarrow> (case b of None \<Rightarrow> False | Some y \<Rightarrow> x < y))"

definition nan_le :: "fval \<Rightarrow> fval \<Rightarrow> bool" where
  "nan_le a b = (case a of None \<Rightarrow> False | Some x \<Rightarrow> (case b of None \<Rightarrow> False | Some y \<Rightarrow> x \<le> y))"

definition nan_ne :: "fval \<Rightarrow> fval \<Rightarrow> bool" where
  "nan_ne a b = (case a of None \<Rightarrow> True | Some x \<Rightarrow> (case b of None \<Rightarrow> True | Some y \<Rightarrow> x \<noteq> y))"

definition nan_lift2 :: "(real \<Rightarrow> real \<Rightarrow> real) \<Rightarrow> fval \<Rightarrow> fval \<Rightarrow> fval" where
  "nan_lift2 f a b = (case a of None \<Rightarrow> None | Some x \<Rightarrow> (case b of None \<Rightarrow> None | Some y \<Rightarrow> Some (f x y)))"

definition nan_sub :: "fval \<Rightarrow> fval \<Rightarrow> fval" where
  "nan_sub a b = nan_lift2 (\<lambda>x y. x - y) a b"

definition nan_abs :: "fval \<Rightarrow> fval" where
  "nan_abs a = map_option abs a"

text \<open>
  \<^verbatim>\<open>round(x, n)\<close> rounds to \<open>n\<close> decimals, a tie going to the even neighbour.
\<close>

definition py_round :: "real \<Rightarrow> nat \<Rightarrow> real" where
  "py_round x n =
     (let s = x * 10 ^ n; f = \<lfloor>s\<rfloor>; d = s - of_int f
      in of_int (if d < 1 / 2 then f else if 1 / 2 < d then f + 1
                 else if even f then f else f + 1) / 10 ^ n)"

definition nan_round :: "fval \<Rightarrow> nat \<Rightarrow> fval" where
  "nan_round a n = map_option (\<lambda>x. py_round x n) a"

text \<open>
  Floating-point division does not raise on numpy values: a zero divisor gives an infinity or
  NaN. Results of divisions therefore live in \<open>xfloat\<close>, the reals with the three
  non-finite values.
\<close>

datatype xfloat = Fin real | PosInf | NegInf | NaN

definition xf_of :: "fval \<Rightarrow> xfloat" where
  "xf_of a = (case a of None \<Rightarrow> NaN | Some x \<Rightarrow> Fin x)"

definition float_div :: "fval \<Rightarrow> fval \<Rightarrow> xfloat" where
  "float_div a b =
     (case a of None \<Rightarrow> NaN
      | Some x \<Rightarrow>
          (case b of None \<Rightarrow> NaN
           | Some y \<Rightarrow>
               if y = 0 then (if 0 < x then PosInf else if x < 0 then NegInf else NaN)
               else Fin (x / y)))"

text \<open>Multiplication by a positive constant, and rounding, keep a non-finite value.\<close>

definition xf_scale :: "xfloat \<Rightarrow> real \<Rightarrow> xfloat" where
  "xf_scale a c = (case a of Fin x \<Rightarrow> Fin (x * c) | PosInf \<Rightarrow> PosInf | NegInf \<Rightarrow> NegInf | NaN \<Rightarrow> NaN)"

definition xf_round :: "xfloat \<Rightarrow> nat \<Rightarrow> xfloat" where
  "xf_round a n = (case a of Fin x \<Rightarrow> Fin (py_round x n) | PosInf \<Rightarrow> PosInf | NegInf \<Rightarrow> NegInf | NaN \<Rightarrow> NaN)"

definition is_finite :: "xfloat \<Rightarrow> bool" where
  "is_finite a = (case a of Fin x \<Rightarrow> True | PosInf \<Rightarrow> False | NegInf \<Rightarrow> False | NaN \<Rightarrow> False)"

subsection \<open>Series statistics\<close>

definition mean :: "real list \<Rightarrow> real" where
  "mean xs = sum_list xs / real (length xs)"

text \<open>\<^verbatim>\<open>Series.std()\<close>: the sample standard deviation (ddof = 1), NaN below two values.\<close>

definition std :: "real list \<Rightarrow> fval" where
  "std xs =
     (if length xs < 2 then None
      else Some (sqrt (sum_list (map (\<lambda>x. (x - mean xs)\<^sup>2) xs) / real (length xs - 1))))"

text \<open>
  \<^verbatim>\<open>LinearRegression().fit(np.arange(n).reshape(-1, 1), values)\<close>: ordinary least squares
  of the values against their positions \<open>0, 1, ..., n - 1\<close>, in closed form.
\<close>

definition arange :: "nat \<Rightarrow> real list" where
  "arange n = map real [0..<n]"

definition ols_slope :: "real list \<Rightarrow> real" where
  "ols_slope ys =
     (let xs = arange (length ys); mx = mean xs; my = mean ys
      in sum_list (map2 (\<lambda>x y. (x - mx) * (y - my)) xs ys)
         / sum_list (map (\<lambda>x. (x - mx)\<^sup>2) xs))"

definition ols_intercept :: "real list \<Rightarrow> real" where
  "ols_intercept ys = mean ys - ols_slope ys * mean (arange (length ys))"

subsection \<open>Measurements and frames\<close>

text \<open>
  A stored record is a JSON object: its date, and for every key either nothing (the key is
  absent), \<open>Some None\<close> (the key holds NaN) or \<open>Some (Some v)\<close>. \<^verbatim>\<open>pd.DataFrame(data)\<close>
  has a column for every key of some record, and NaN in the cells of records without it.
\<close>

record measurement =
  date :: int
  entries :: "string \<Rightarrow> fval option"

type_synonym frame = "measurement list"

definition has_column :: "frame \<Rightarrow> string \<Rightarrow> bool" where
  "has_column df m = list_ex (\<lambda>r. entries r m \<noteq> None) df"

definition cell :: "measurement \<Rightarrow> string \<Rightarrow> fval" where
  "cell r m = (case entries r m of None \<Rightarrow> None | Some v \<Rightarrow> v)"

definition column :: "frame \<Rightarrow> string \<Rightarrow> fval list" where
  "column df m = map (\<lambda>r. cell r m) df"

definition dropna :: "fval list \<Rightarrow> real list" where
  "dropna vs = List.map_filter (\<lambda>v. v) vs"

text \<open>
  \<^verbatim>\<open>df.sort_values('date')\<close>: ascending by timestamp. pandas does not fix the order of
  rows with equal timestamps; the model keeps them in their given order.
\<close>

definition sort_values :: "frame \<Rightarrow> frame" where
  "sort_values df = sort_key date df"

definition date_max :: "frame \<Rightarrow> int" where
  "date_max df = fold max (map date (tl df)) (date (hd df))"

datatype py_exception = KeyError string

definition str_of_exception :: "py_exception \<Rightarrow> string" where
  "str_of_exception e = (case e of KeyError k \<Rightarrow> [CHR 0x27] @ k @ [CHR 0x27])"

section \<open>The data access collaborator\<close>

text \<open>
  \<^verbatim>\<open>DataProcessor.get_body_composition_data\<close> returns the stored records in file order
  (newest first, as \<^verbatim>\<open>process_excel_file\<close> wrote them), cut to \<^verbatim>\<open>limit\<close>;
  \<^verbatim>\<open>get_latest_measurement\<close> is the first of them. The store is the list of records of the
  file.
\<close>

definition get_body_composition_data :: "measurement list \<Rightarrow> nat \<Rightarrow> measurement list" where
  "get_body_composition_data store limit = (if limit \<noteq> 0 then take limit store else store)"

definition get_latest_measurement :: "measurement list \<Rightarrow> measurement option" where
  "get_latest_measurement store =
     (case get_body_composition_data store 1 of [] \<Rightarrow> None | r # _ \<Rightarrow> Some r)"

section \<open>Windowed trend\<close>

record trend_dict =
  tr_trend :: string
  tr_slope :: real
  tr_change :: real
  tr_percent_change :: xfloat
  tr_data_points :: nat
  tr_period_days :: int

datatype trend_result = Insufficient_data | Trend trend_dict

definition trend_direction :: "real \<Rightarrow> fval \<Rightarrow> string" where
  "trend_direction slope threshold =
     (if nan_less (Some \<bar>slope\<bar>) threshold then ''stable''
      else if slope > 0 then ''increasing''
      else ''decreasing'')"

definition calculate_trend :: "frame \<Rightarrow> string \<Rightarrow> int \<Rightarrow> py_exception + trend_result" where
  "calculate_trend df metric days =
     (let recent_df = (if df = [] then []
                       else filter (\<lambda>r. date_max df - days * 86400 \<le> date r) df)
      in if length recent_df < 2 then Inr Insufficient_data
         else if \<not> has_column df metric then Inl (KeyError metric)
         else
           let values = dropna (column recent_df metric)
           in if length values < 2 then Inr Insufficient_data
              else
                let slope = ols_slope values;
                    threshold = map_option (\<lambda>s. s * 0.1) (std values);
                    direction = trend_direction slope threshold;
                    start_value = hd values;
                    end_value = last values;
                    pct_change =
                      (if start_value \<noteq> 0
                       then xf_scale (float_div (Some (end_value - start_value)) (Some start_value)) 100
                       else Fin 0)
                in Inr (Trend \<lparr> tr_trend = direction,
                                 tr_slope = py_round slope 4,
                                 tr_change = py_round (end_value - start_value) 2,
                                 tr_percent_change = xf_round pct_change 2,
                                 tr_data_points = length values,
                                 tr_period_days = days \<rparr>))"

section \<open>Goal feasibility\<close>

record goal_dict =
  g_current_weight :: fval
  g_target_weight :: real
  g_weight_to_change :: fval
  g_days_remaining :: int
  g_weeks_remaining :: real
  g_required_weekly_rate :: fval
  g_current_trend :: trend_result
  g_feasibility :: string
  g_recommendation :: string

definition assess_feasibility :: "fval \<Rightarrow> string" where
  "assess_feasibility required_weekly_rate =
     (if nan_less (Some 1.0) (nan_abs required_weekly_rate) then ''aggressive''
      else if nan_less (Some 0.5) (nan_abs required_weekly_rate) then ''challenging''
      else if nan_less (nan_abs required_weekly_rate) (Some 0.2) then ''conservative''
      else ''realistic'')"

definition get_goal_recommendation :: "fval \<Rightarrow> trend_result \<Rightarrow> string \<Rightarrow> string" where
  "get_goal_recommendation required_rate current_trend feasibility =
     (if feasibility = ''aggressive''
      then ''This goal requires aggressive changes. Consider extending timeline or consulting a professional.''
      else if feasibility = ''challenging''
      then ''This goal is challenging but achievable with consistent effort and proper planning.''
      else if feasibility = ''conservative''
      then ''This goal is very achievable. Stay consistent with your current approach.''
      else ''This goal appears realistic. Monitor progress and adjust as needed.'')"

text \<open>
  \<^verbatim>\<open>check_goal_progress\<close>. The target date is given as its day number (the parsed
  \<^verbatim>\<open>'%Y-%m-%d'\<close> string is midnight of that day, \<open>target_date * 86400\<close>). Every
  exception is caught and returned as an error dictionary, as is every refusal: \<open>Inl\<close> holds
  the error message.
\<close>

definition check_goal_progress :: "measurement list \<Rightarrow> real \<Rightarrow> int \<Rightarrow> string + goal_dict" where
  "check_goal_progress store target_weight target_date =
     (case get_latest_measurement store of
        None \<Rightarrow> Inl ''No measurement data available''
      | Some latest_data \<Rightarrow>
          (case entries latest_data ''weight_kg'' of
             None \<Rightarrow> Inl (''Error checking goal progress: '' @ str_of_exception (KeyError ''weight_kg''))
           | Some current_weight \<Rightarrow>
               let current_date = date latest_data;
                   target_dt = target_date * 86400;
                   days_remaining = (target_dt - current_date) div 86400;
                   weight_to_lose = nan_sub current_weight (Some target_weight)
               in if days_remaining \<le> 0 then Inl ''Target date must be in the future''
                  else
                    let weeks_remaining = real_of_int days_remaining / 7;
                        required_weekly_rate =
                          (if weeks_remaining > 0
                           then map_option (\<lambda>w. w / weeks_remaining) weight_to_lose
                           else Some 0);
                        df = sort_values (get_body_composition_data store 30)
                    in (case calculate_trend df ''weight_kg'' 30 of
                          Inl e \<Rightarrow> Inl (''Error checking goal progress: '' @ str_of_exception e)
                        | Inr current_trend \<Rightarrow>
                            let feasibility = assess_feasibility required_weekly_rate
                            in Inr \<lparr> g_current_weight = current_weight,
                                     g_target_weight = target_weight,
                                     g_weight_to_change = nan_round weight_to_lose 2,
                                     g_days_remaining = days_remaining,
                                     g_weeks_remaining = py_round weeks_remaining 1,
                                     g_required_weekly_rate = nan_round required_weekly_rate 2,
                                     g_current_trend = current_trend,
                                     g_feasibility = feasibility,
                                     g_recommendation =
                                       get_goal_recommendation required_weekly_rate current_trend
                                         feasibility \<rparr>)))"

section \<open>Full-series metric analysis and period changes\<close>

text \<open>A returned dictionary that is either \<^verbatim>\<open>{"error": message}\<close> or the result.\<close>

datatype 'a dict_or_error = Error_dict string | Dict 'a

definition list_min :: "real list \<Rightarrow> real" where
  "list_min xs = fold min (tl xs) (hd xs)"

definition list_max :: "real list \<Rightarrow> real" where
  "list_max xs = fold max (tl xs) (hd xs)"

text \<open>\<^verbatim>\<open>Series.diff().dropna()\<close> of a series without NaN: the consecutive differences.\<close>

definition diffs :: "real list \<Rightarrow> real list" where
  "diffs xs = map2 (\<lambda>a b. b - a) xs (tl xs)"

text \<open>
  \<^verbatim>\<open>model.score(x, values)\<close>: the coefficient of determination of the fitted line, which
  scikit-learn sets to 1 for a perfect fit of constant values and to 0 for an imperfect one.
\<close>

definition r_squared :: "real list \<Rightarrow> real" where
  "r_squared ys =
     (let fitted = map (\<lambda>x. ols_intercept ys + ols_slope ys * x) (arange (length ys));
          ss_res = sum_list (map2 (\<lambda>y f. (y - f)\<^sup>2) ys fitted);
          ss_tot = sum_list (map (\<lambda>y. (y - mean ys)\<^sup>2) ys)
      in if ss_tot \<noteq> 0 then 1 - ss_res / ss_tot else if ss_res = 0 then 1 else 0)"

record analysis_dict =
  an_current :: real
  an_start :: real
  an_min :: real
  an_max :: real
  an_mean :: real
  an_std :: fval
  an_total_change :: real
  an_total_change_percent :: xfloat
  an_trend_slope :: real
  an_r_squared :: real
  an_volatility :: fval
  an_largest_daily_change :: real

definition analyze_metric_trend ::
  "frame \<Rightarrow> string \<Rightarrow> py_exception + analysis_dict dict_or_error" where
  "analyze_metric_trend df metric =
     (if \<not> has_column df metric then Inl (KeyError metric)
      else
        let values = dropna (column df metric)
        in if length values < 2 then Inr (Error_dict ''Insufficient data'')
           else
             let daily_changes = diffs values
             in Inr (Dict
                  \<lparr> an_current = py_round (last values) 2,
                    an_start = py_round (hd values) 2,
                    an_min = py_round (list_min values) 2,
                    an_max = py_round (list_max values) 2,
                    an_mean = py_round (mean values) 2,
                    an_std = nan_round (std values) 2,
                    an_total_change = py_round (last values - hd values) 2,
                    an_total_change_percent =
                      (if hd values \<noteq> 0
                       then xf_round
                              (xf_scale (float_div (Some (last values - hd values))
                                           (Some (hd values))) 100) 2
                       else Fin 0),
                    an_trend_slope = py_round (ols_slope values) 4,
                    an_r_squared = py_round (r_squared values) 3,
                    an_volatility = nan_round (std daily_changes) 2,
                    an_largest_daily_change = py_round (list_max (map abs daily_changes)) 2 \<rparr>))"

record change_dict =
  ch_absolute :: fval
  ch_percent :: xfloat

text \<open>
  \<^verbatim>\<open>_calculate_period_changes\<close> compares the first and the last row of the frame; the
  dictionary it returns is the list of its items, in the order of \<^verbatim>\<open>key_metrics\<close>.
\<close>

definition key_metrics :: "string list" where
  "key_metrics = [''weight_kg'', ''body_fat_percent'', ''muscle_mass_kg'', ''bmi'']"

definition calculate_period_changes :: "frame \<Rightarrow> (string \<times> change_dict) list" where
  "calculate_period_changes df =
     (if length df < 2 then []
      else
        let start_row = hd df; end_row = last df
        in map (\<lambda>metric.
                  let change = nan_sub (cell end_row metric) (cell start_row metric);
                      pct_change = (if nan_ne (cell start_row metric) (Some 0)
                                    then xf_scale (float_div change (cell start_row metric)) 100
                                    else Fin 0)
                  in (metric, \<lparr> ch_absolute = nan_round change 2,
                                  ch_percent = xf_round pct_change 2 \<rparr>))
             (filter (has_column df) key_metrics))"

section \<open>Achievements and health insights\<close>

text \<open>
  \<^verbatim>\<open>f"{x:.1f}"\<close>: the decimal numeral of \<open>x\<close> rounded to one decimal.
\<close>

fun show_nat :: "nat \<Rightarrow> string" where
  "show_nat n =
     (if n < 10 then [char_of (48 + n)] else show_nat (n div 10) @ [char_of (48 + n mod 10)])"

definition format_1f :: "real \<Rightarrow> string" where
  "format_1f x =
     (let t = nat \<lfloor>py_round \<bar>x\<bar> 1 * 10\<rfloor>
      in (if x < 0 then ''-'' else []) @ show_nat (t div 10) @ ''.'' @ show_nat (t mod 10))"

record achievement =
  ach_type :: string
  ach_description :: string
  ach_value :: real
  ach_category :: string

text \<open>
  \<^verbatim>\<open>_identify_achievements\<close> compares the first and the last row of the frame. A
  change that is NaN satisfies none of the comparisons.
\<close>

definition identify_achievements :: "frame \<Rightarrow> achievement list" where
  "identify_achievements df =
     (if length df < 2 then []
      else
        (if has_column df ''weight_kg''
         then (case nan_sub (cell (last df) ''weight_kg'') (cell (hd df) ''weight_kg'') of
                 None \<Rightarrow> []
               | Some weight_change \<Rightarrow>
                   if weight_change < - 5
                   then [\<lparr> ach_type = ''weight_loss'',
                            ach_description = ''Lost '' @ format_1f \<bar>weight_change\<bar> @ '' kg'',
                            ach_value = \<bar>weight_change\<bar>,
                            ach_category = (if \<bar>weight_change\<bar> > 10 then ''major''
                                            else ''significant'') \<rparr>]
                   else if weight_change > 2
                   then [\<lparr> ach_type = ''weight_gain'',
                            ach_description = ''Gained '' @ format_1f weight_change @ '' kg'',
                            ach_value = weight_change,
                            ach_category = ''muscle_building'' \<rparr>]
                   else [])
         else [])
        @ (if has_column df ''body_fat_percent''
           then (case nan_sub (cell (last df) ''body_fat_percent'')
                        (cell (hd df) ''body_fat_percent'') of
                   None \<Rightarrow> []
                 | Some fat_change \<Rightarrow>
                     if fat_change < - 2
                     then [\<lparr> ach_type = ''fat_loss'',
                              ach_description =
                                ''Reduced body fat by '' @ format_1f \<bar>fat_change\<bar> @ ''%'',
                              ach_value = \<bar>fat_change\<bar>,
                              ach_category = (if \<bar>fat_change\<bar> > 5 then ''major''
                                              else ''significant'') \<rparr>]
                     else [])
           else [])
        @ (if has_column df ''muscle_mass_kg''
           then (case nan_sub (cell (last df) ''muscle_mass_kg'')
                        (cell (hd df) ''muscle_mass_kg'') of
                   None \<Rightarrow> []
                 | Some muscle_change \<Rightarrow>
                     if muscle_change > 1
                     then [\<lparr> ach_type = ''muscle_gain'',
                              ach_description =
                                ''Gained '' @ format_1f muscle_change @ '' kg muscle mass'',
                              ach_value = muscle_change,
                              ach_category = ''muscle_building'' \<rparr>]
                     else [])
           else []))"

text \<open>
  \<^verbatim>\<open>_generate_health_insights\<close> reads the last row of the frame. The row has every
  column of the frame (\<^verbatim>\<open>'bmi' in latest\<close> asks for the column), and a NaN cell fails
  every comparison, which in the BMI chain ends in the last branch.
\<close>

definition generate_health_insights :: "frame \<Rightarrow> string list" where
  "generate_health_insights df =
     (if length df < 2 then []
      else
        let latest = last df
        in (if has_column df ''bmi''
            then (let bmi = cell latest ''bmi''
                  in if nan_less bmi (Some 18.5)
                     then [''Your BMI indicates you're underweight. Consider consulting a nutritionist.'']
                     else if nan_le (Some 18.5) bmi \<and> nan_less bmi (Some 25)
                     then [''Your BMI is in the healthy range. Great job maintaining a healthy weight!'']
                     else if nan_le (Some 25) bmi \<and> nan_less bmi (Some 30)
                     then [''Your BMI indicates you're overweight. Focus on creating a caloric deficit.'']
                     else [''Your BMI indicates obesity. Consider consulting a healthcare professional.''])
            else [])
           @ (if has_column df ''body_fat_percent''
              then (let body_fat = cell latest ''body_fat_percent''
                    in if nan_less body_fat (Some 10)
                       then [''Your body fat is very low. Ensure you're maintaining adequate nutrition.'']
                       else if nan_le (Some 10) body_fat \<and> nan_le body_fat (Some 15)
                       then [''Excellent body fat percentage! You're in athletic range.'']
                       else if nan_le (Some 16) body_fat \<and> nan_le body_fat (Some 20)
                       then [''Good body fat percentage. You're in the fitness range.'']
                       else if nan_less (Some 25) body_fat
                       then [''Consider focusing on fat loss through diet and cardio exercise.'']
                       else [])
              else [])
           @ (if has_column df ''body_water_percent''
              then (let water_pct = cell latest ''body_water_percent''
                    in if nan_less water_pct (Some 50)
                       then [''Your body water percentage seems low. Ensure adequate hydration.'']
                       else if nan_less (Some 65) water_pct
                       then [''Your body water percentage is high, which is generally positive.'']
                       else [])
              else []))"

section \<open>Predictions\<close>

record prediction_dict =
  pr_current_value :: real
  pr_predicted_value :: real
  pr_change :: real
  pr_confidence :: real
  pr_trend :: string

text \<open>\<^verbatim>\<open>Series.tail(n)\<close>: the last \<open>n\<close> values, or all of them when there are fewer.\<close>

definition tail :: "nat \<Rightarrow> 'a list \<Rightarrow> 'a list" where
  "tail n xs = drop (length xs - n) xs"

text \<open>
  \<^verbatim>\<open>_predict_metric\<close> catches every exception and returns \<^verbatim>\<open>None\<close>: for a metric
  that is no column of the frame (\<^verbatim>\<open>KeyError\<close>), and for \<^verbatim>\<open>days_ahead\<close> below 1,
  where \<^verbatim>\<open>future_x\<close> is empty and \<^verbatim>\<open>model.predict\<close> refuses it. Otherwise the
  predicted value is that of the fitted line at the last position of \<^verbatim>\<open>future_x\<close>,
  \<open>n + days_ahead - 1\<close>.
\<close>

definition predict_metric :: "frame \<Rightarrow> string \<Rightarrow> int \<Rightarrow> prediction_dict option" where
  "predict_metric df metric days_ahead =
     (if \<not> has_column df metric then None
      else
        let values = dropna (column df metric)
        in if length values < 5 then None
           else
             let recent_values = tail 30 values
             in if days_ahead \<le> 0 then None
                else
                  let predicted_value =
                        ols_intercept recent_values
                        + ols_slope recent_values
                          * (real (length recent_values) + real_of_int days_ahead - 1);
                      current_value = last values
                  in Some \<lparr> pr_current_value = py_round current_value 2,
                            pr_predicted_value = py_round predicted_value 2,
                            pr_change = py_round (predicted_value - current_value) 2,
                            pr_confidence = py_round (r_squared recent_values) 3,
                            pr_trend = (if predicted_value > current_value then ''increasing''
                                        else if predicted_value < current_value then ''decreasing''
                                        else ''stable'') \<rparr>)"

record predictions_dict =
  pp_prediction_period :: int
  pp_base_data_points :: nat
  pp_predictions :: "(string \<times> prediction_dict) list"
  pp_confidence_note :: string

definition metrics_to_predict :: "string list" where
  "metrics_to_predict = [''weight_kg'', ''body_fat_percent'', ''muscle_mass_kg'', ''bmi'']"

text \<open>
  \<^verbatim>\<open>get_progress_predictions\<close>: the dictionary of predictions is the list of its items,
  in the order of \<^verbatim>\<open>metrics_to_predict\<close>.
\<close>

definition get_progress_predictions :: "measurement list \<Rightarrow> int \<Rightarrow> string + predictions_dict" where
  "get_progress_predictions store days_ahead =
     (let data = get_body_composition_data store 90
      in if length data < 10 then Inl ''Insufficient data for predictions''
         else
           let df = sort_values data
           in Inr \<lparr> pp_prediction_period = days_ahead,
                    pp_base_data_points = length data,
                    pp_predictions =
                      List.map_filter
                        (\<lambda>metric.
                           if has_column df metric \<and> 5 < length (dropna (column df metric))
                           then map_option (\<lambda>prediction. (metric, prediction))
                                  (predict_metric df metric days_ahead)
                           else None)
                        metrics_to_predict,
                    pp_confidence_note =
                      ''Predictions are estimates based on recent trends and may vary with lifestyle changes'' \<rparr>)"

section \<open>Change velocity\<close>

text \<open>
  Sums and differences of floats that may be infinite: an infinity absorbs a finite value,
  opposite infinities give NaN, and NaN is kept.
\<close>

definition xf_add :: "xfloat \<Rightarrow> xfloat \<Rightarrow> xfloat" where
  "xf_add a b =
     (case a of
        NaN \<Rightarrow> NaN
      | Fin x \<Rightarrow> (case b of Fin y \<Rightarrow> Fin (x + y) | PosInf \<Rightarrow> PosInf | NegInf \<Rightarrow> NegInf
                   | NaN \<Rightarrow> NaN)
      | PosInf \<Rightarrow> (case b of Fin y \<Rightarrow> PosInf | PosInf \<Rightarrow> PosInf | NegInf \<Rightarrow> NaN
                    | NaN \<Rightarrow> NaN)
      | NegInf \<Rightarrow> (case b of Fin y \<Rightarrow> NegInf | PosInf \<Rightarrow> NaN | NegInf \<Rightarrow> NegInf
                    | NaN \<Rightarrow> NaN))"

definition xf_neg :: "xfloat \<Rightarrow> xfloat" where
  "xf_neg a = (case a of Fin x \<Rightarrow> Fin (- x) | PosInf \<Rightarrow> NegInf | NegInf \<Rightarrow> PosInf | NaN \<Rightarrow> NaN)"

definition xf_sub :: "xfloat \<Rightarrow> xfloat \<Rightarrow> xfloat" where
  "xf_sub a b = xf_add a (xf_neg b)"

definition xf_less :: "xfloat \<Rightarrow> xfloat \<Rightarrow> bool" where
  "xf_less a b =
     (case a of
        NaN \<Rightarrow> False
      | Fin x \<Rightarrow> (case b of Fin y \<Rightarrow> x < y | PosInf \<Rightarrow> True | NegInf \<Rightarrow> False | NaN \<Rightarrow> False)
      | PosInf \<Rightarrow> False
      | NegInf \<Rightarrow> (case b of Fin y \<Rightarrow> True | PosInf \<Rightarrow> True | NegInf \<Rightarrow> False | NaN \<Rightarrow> False))"

text \<open>
  \<^verbatim>\<open>Series.dropna()\<close>, and the reductions \<^verbatim>\<open>mean()\<close>, \<^verbatim>\<open>max()\<close> and
  \<^verbatim>\<open>min()\<close>, which skip NaN and are NaN on an empty series.
\<close>

definition xf_dropna :: "xfloat list \<Rightarrow> xfloat list" where
  "xf_dropna xs = filter (\<lambda>x. x \<noteq> NaN) xs"

definition xf_mean :: "xfloat list \<Rightarrow> xfloat" where
  "xf_mean xs =
     (let ys = xf_dropna xs
      in if ys = [] then NaN else xf_scale (fold (\<lambda>y acc. xf_add acc y) ys (Fin 0)) (1 / real (length ys)))"

definition xf_max :: "xfloat list \<Rightarrow> xfloat" where
  "xf_max xs =
     (let ys = xf_dropna xs
      in if ys = [] then NaN else fold (\<lambda>y acc. if xf_less acc y then y else acc) (tl ys) (hd ys))"

definition xf_min :: "xfloat list \<Rightarrow> xfloat" where
  "xf_min xs =
     (let ys = xf_dropna xs
      in if ys = [] then NaN else fold (\<lambda>y acc. if xf_less y acc then y else acc) (tl ys) (hd ys))"

definition xf_diffs :: "xfloat list \<Rightarrow> xfloat list" where
  "xf_diffs xs = map2 (\<lambda>a b. xf_sub b a) xs (tl xs)"

record velocity_dict =
  v_avg_daily_change :: xfloat
  v_max_daily_change :: xfloat
  v_min_daily_change :: xfloat
  v_acceleration :: xfloat

text \<open>
  \<^verbatim>\<open>_calculate_change_velocity\<close>: the rows with a value of the metric, the differences
  of consecutive values, the whole days between their timestamps, and the quotients. The
  first entry of each \<^verbatim>\<open>diff()\<close> is NaN and is dropped with the other NaN quotients.
\<close>

definition calculate_change_velocity ::
  "frame \<Rightarrow> string \<Rightarrow> py_exception + velocity_dict dict_or_error" where
  "calculate_change_velocity df metric =
     (if \<not> has_column df metric then Inl (KeyError metric)
      else
        let rows = filter (\<lambda>r. cell r metric \<noteq> None) df;
            values = dropna (column rows metric);
            dates = map date rows
        in if length values < 3 then Inr (Error_dict ''Insufficient data'')
           else
             let changes = diffs values;
                 time_diffs = map2 (\<lambda>a b. (b - a) div 86400) dates (tl dates);
                 daily_changes =
                   xf_dropna (map2 (\<lambda>c t. float_div (Some c) (Some (real_of_int t)))
                                changes time_diffs)
             in Inr (Dict
                  \<lparr> v_avg_daily_change = xf_round (xf_mean daily_changes) 4,
                    v_max_daily_change = xf_round (xf_max daily_changes) 4,
                    v_min_daily_change = xf_round (xf_min daily_changes) 4,
                    v_acceleration = xf_round (xf_mean (xf_diffs daily_changes)) 6 \<rparr>))"

section \<open>Correlations\<close>











section \<open>The metrics summary\<close>






















section \<open>Example inputs\<close>

text \<open>
  The goal check of the specification: the latest weight is 80 kg, the target is 75 kg
  and the target date is 70 days (10 weeks) after the latest measurement.
\<close>

definition spec_goal_store :: "measurement list" where
  "spec_goal_store =
     [\<lparr> date = 0, entries = (\<lambda>k. if k = ''weight_kg'' then Some (Some 80) else None) \<rparr>]"

text \<open>
  A store whose latest measurement was taken at 10:00:00 of day 0, weighing 80 kg.
\<close>

definition late_morning_store :: "measurement list" where
  "late_morning_store =
     [\<lparr> date = 36000, entries = (\<lambda>k. if k = ''weight_kg'' then Some (Some 80) else None) \<rparr>]"

text \<open>
  The trend example of the specification: weights 80, 79, 78, 77 on four consecutive days.
\<close>

definition weight_record :: "int \<Rightarrow> real \<Rightarrow> measurement" where
  "weight_record d w =
     \<lparr> date = d, entries = (\<lambda>k. if k = ''weight_kg'' then Some (Some w) else None) \<rparr>"

definition spec_trend_frame :: frame where
  "spec_trend_frame =
     [weight_record 0 80, weight_record 86400 79, weight_record 172800 78,
      weight_record 259200 77]"

text \<open>A frame whose first weight is 0 kg and whose last is 5 kg, a day later.\<close>

definition zero_baseline_frame :: frame where
  "zero_baseline_frame = [weight_record 0 0, weight_record 86400 5]"

text \<open>
  Two measurements a day apart: 80 kg, 20 percent body fat and 30 kg muscle mass first, the
  given values last.
\<close>

definition body_record :: "int \<Rightarrow> real \<Rightarrow> real \<Rightarrow> real \<Rightarrow> measurement" where
  "body_record d w f m =
     \<lparr> date = d,
       entries = (\<lambda>k. if k = ''weight_kg'' then Some (Some w)
                      else if k = ''body_fat_percent'' then Some (Some f)
                      else if k = ''muscle_mass_kg'' then Some (Some m)
                      else None) \<rparr>"


definition progress_frame :: "real \<Rightarrow> real \<Rightarrow> real \<Rightarrow> frame" where
  "progress_frame w f m = [body_record 0 80 20 30, body_record 86400 w f m]"

text \<open>
  Records with a BMI, a body-fat percentage and a body-water percentage, and a frame of two
  of them whose latest record has the given values.
\<close>

definition insight_record :: "int \<Rightarrow> real \<Rightarrow> real \<Rightarrow> real \<Rightarrow> measurement" where
  "insight_record d b f w =
     \<lparr> date = d,
       entries = (\<lambda>k. if k = ''bmi'' then Some (Some b)
                      else if k = ''body_fat_percent'' then Some (Some f)
                      else if k = ''body_water_percent'' then Some (Some w)
                      else None) \<rparr>"


definition insight_frame :: "real \<Rightarrow> real \<Rightarrow> real \<Rightarrow> frame" where
  "insight_frame b f w = [insight_record 0 31 30 40, insight_record 86400 b f w]"

text \<open>
  A store of ten daily measurements, newest first; all have a BMI and every other one has a
  weight.
\<close>

definition wb_record :: "int \<Rightarrow> fval \<Rightarrow> real \<Rightarrow> measurement" where
  "wb_record d w b =
     \<lparr> date = d * 86400,
       entries = (\<lambda>k. if k = ''weight_kg'' then Some w
                      else if k = ''bmi'' then Some (Some b)
                      else None) \<rparr>"

definition five_point_store :: "measurement list" where
  "five_point_store =
     [wb_record 9 (Some 75) 23, wb_record 8 None 23, wb_record 7 (Some 76) 23,
      wb_record 6 None 24, wb_record 5 (Some 77) 24, wb_record 4 None 24,
      wb_record 3 (Some 78) 24, wb_record 2 None 25, wb_record 1 (Some 79) 25,
      wb_record 0 None 25]"

text \<open>Three weights measured at 08:00, 12:00 and 18:00 of one day.\<close>

definition same_day_frame :: frame where
  "same_day_frame = [weight_record 28800 80, weight_record 43200 81, weight_record 64800 82]"

text \<open>The same four days with the weights 80, 79, 79, 77, which are on no line.\<close>

definition bent_trend_frame :: frame where
  "bent_trend_frame =
     [weight_record 0 80, weight_record 86400 79, weight_record 172800 79,
      weight_record 259200 77]"

text \<open>A record whose BMI is stored as NaN.\<close>

definition nan_bmi_record :: "int \<Rightarrow> measurement" where
  "nan_bmi_record d = \<lparr> date = d, entries = (\<lambda>k. if k = ''bmi'' then Some None else None) \<rparr>"





section \<open>Properties\<close>

subsection \<open>Frames and the trend of the recent data\<close>

lemma has_column_sort_values: "has_column (sort_values df) m = has_column df m"
  by (simp add: has_column_def sort_values_def list_ex_iff)

lemma calculate_trend_Inr:
  "has_column df m \<Longrightarrow> \<exists>t. calculate_trend df m d = Inr t"
  by (simp add: calculate_trend_def Let_def)

lemma has_column_recent:
  assumes "get_latest_measurement store = Some r" "entries r m \<noteq> None"
  shows "has_column (sort_values (get_body_composition_data store 30)) m"
proof -
  from assms(1) obtain rs where s: "store = r # rs"
    by (cases store) (simp_all add: get_latest_measurement_def get_body_composition_data_def)
  show ?thesis unfolding has_column_sort_values using assms(2)
    by (simp add: s get_body_composition_data_def has_column_def)
qed

lemma recent_trend_Inr:
  assumes "get_latest_measurement store = Some r" "entries r ''weight_kg'' \<noteq> None"
  shows "\<exists>t. calculate_trend (sort_values (get_body_composition_data store 30)) ''weight_kg'' 30
               = Inr t"
  using has_column_recent [OF assms] by (rule calculate_trend_Inr)

subsection \<open>Goal feasibility\<close>

lemma assess_feasibility_Some:
  "assess_feasibility (Some r) =
     (if \<bar>r\<bar> > 1 then ''aggressive'' else if \<bar>r\<bar> > 0.5 then ''challenging''
      else if \<bar>r\<bar> < 0.2 then ''conservative'' else ''realistic'')"
  by (simp add: assess_feasibility_def nan_less_def nan_abs_def)

text \<open>
  Claim C1. With a latest measurement of weight \<open>w\<close> and at least one whole day remaining,
  \<^verbatim>\<open>check_goal_progress\<close> succeeds and labels the required weekly rate
  \<open>(w - target) / (days / 7)\<close> in this order, with strict comparisons: above 1.0 in magnitude
  "aggressive", else above 0.5 "challenging", else below 0.2 "conservative", else
  "realistic". The witness is the specification's example (80 kg, 75 kg, 70 days: the rate is
  exactly 0.5), whose label is "realistic" and so not "aggressive".
\<close>

theorem goal_feasibility_classification:
  assumes "get_latest_measurement store = Some latest"
      and "entries latest ''weight_kg'' = Some (Some w)"
      and "0 < (target_date * 86400 - date latest) div 86400"
  shows "\<exists>g. check_goal_progress store target_weight target_date = Inr g \<and>
           g_feasibility g =
             (let rate = (w - target_weight)
                         / (real_of_int ((target_date * 86400 - date latest) div 86400) / 7)
              in if \<bar>rate\<bar> > 1.0 then ''aggressive''
                 else if \<bar>rate\<bar> > 0.5 then ''challenging''
                 else if \<bar>rate\<bar> < 0.2 then ''conservative''
                 else ''realistic'')"
proof -
  have "entries latest ''weight_kg'' \<noteq> None"
    using assms(2) by simp
  with assms(1) obtain t where
    t: "calculate_trend (sort_values (get_body_composition_data store 30)) ''weight_kg'' 30 = Inr t"
    using recent_trend_Inr by blast
  show ?thesis
    using assms t
    by (simp add: check_goal_progress_def Let_def nan_sub_def nan_lift2_def
        assess_feasibility_Some)
qed

theorem goal_feasibility_classification_witness:
  "get_latest_measurement spec_goal_store = Some (hd spec_goal_store) \<and>
   entries (hd spec_goal_store) ''weight_kg'' = Some (Some 80) \<and>
   0 < (70 * 86400 - date (hd spec_goal_store)) div 86400 \<and>
   (\<exists>g. check_goal_progress spec_goal_store 75 70 = Inr g \<and>
        g_feasibility g = ''realistic'' \<and> g_feasibility g \<noteq> ''aggressive'')"
proof -
  have a: "get_latest_measurement spec_goal_store = Some (hd spec_goal_store)"
    by (simp add: spec_goal_store_def get_latest_measurement_def get_body_composition_data_def)
  have b: "entries (hd spec_goal_store) ''weight_kg'' = Some (Some 80)"
    by (simp add: spec_goal_store_def)
  have c: "0 < (70 * 86400 - date (hd spec_goal_store)) div 86400"
    by (simp add: spec_goal_store_def)
  from goal_feasibility_classification [OF a b c, of 75]
  show ?thesis using a b c by (auto simp: spec_goal_store_def)
qed

subsection \<open>The invalid-goal error\<close>

lemma days_remaining_nonpositive: "((x::int) div 86400 \<le> 0) = (x < 86400)"
  by auto

text \<open>
  Claim C6, as the claim states it, fails: the target date of day 1 (midnight) is strictly
  after the latest measurement of day 0, 10:00:00, and \<^verbatim>\<open>check_goal_progress\<close> still
  returns the invalid-goal error, since the guard is on the whole days remaining
  (\<^verbatim>\<open>(target_dt - current_date).days <= 0\<close>) and 14 hours are 0 days.
\<close>

theorem invalid_goal_counterexample:
  "get_latest_measurement late_morning_store = Some (hd late_morning_store) \<and>
   date (hd late_morning_store) < 1 * 86400 \<and>
   check_goal_progress late_morning_store 75 1 = Inl ''Target date must be in the future''"
  by (simp add: late_morning_store_def check_goal_progress_def get_latest_measurement_def
      get_body_composition_data_def Let_def)

text \<open>
  Claim C6, amended. When the latest measurement has a \<^verbatim>\<open>weight_kg\<close> entry,
  \<^verbatim>\<open>check_goal_progress\<close> returns the invalid-goal error (as a result, not an exception)
  exactly when the midnight of the target date is less than one whole day (86400 seconds)
  after the timestamp of the latest measurement. So every target at or before the latest
  timestamp is refused, and a target is accepted exactly from 24 hours ahead on.
\<close>

theorem invalid_goal_iff_less_than_one_day:
  assumes "get_latest_measurement store = Some latest"
      and "entries latest ''weight_kg'' \<noteq> None"
  shows "(check_goal_progress store target_weight target_date
            = Inl ''Target date must be in the future'')
         = (target_date * 86400 - date latest < 86400)"
proof -
  from assms obtain t where
    t: "calculate_trend (sort_values (get_body_composition_data store 30)) ''weight_kg'' 30 = Inr t"
    using recent_trend_Inr by blast
  from assms(2) obtain cw where cw: "entries latest ''weight_kg'' = Some cw"
    by auto
  show ?thesis
    using assms(1) t cw
    by (simp add: check_goal_progress_def Let_def days_remaining_nonpositive)
qed

theorem invalid_goal_iff_less_than_one_day_witness:
  "get_latest_measurement late_morning_store = Some (hd late_morning_store) \<and>
   entries (hd late_morning_store) ''weight_kg'' \<noteq> None \<and>
   check_goal_progress late_morning_store 75 1 = Inl ''Target date must be in the future'' \<and>
   check_goal_progress late_morning_store 75 2 \<noteq> Inl ''Target date must be in the future''"
proof -
  have a: "get_latest_measurement late_morning_store = Some (hd late_morning_store)"
    by (simp add: late_morning_store_def get_latest_measurement_def get_body_composition_data_def)
  have b: "entries (hd late_morning_store) ''weight_kg'' \<noteq> None"
    by (simp add: late_morning_store_def)
  have c: "date (hd late_morning_store) = 36000"
    by (simp add: late_morning_store_def)
  show ?thesis
    using a b invalid_goal_iff_less_than_one_day [OF a b, of 75 1]
      invalid_goal_iff_less_than_one_day [OF a b, of 75 2]
    by (simp add: c)
qed

subsection \<open>Windowed trend\<close>

lemma length_dropna_column: "length (dropna (column df m)) \<le> length df"
  by (induction df)
    (simp_all add: dropna_def column_def List.map_filter_simps split: option.splits)

lemma dropna_column_has_column:
  "dropna (column df m) \<noteq> [] \<Longrightarrow> has_column df m"
  by (induction df)
    (auto simp: dropna_def column_def List.map_filter_simps has_column_def cell_def
      split: option.splits)

lemma has_column_filter: "has_column (filter P df) m \<Longrightarrow> has_column df m"
  by (auto simp: has_column_def list_ex_iff)

lemma sum_list_map_nth:
  fixes f :: "'a \<Rightarrow> real"
  shows "sum_list (map f xs) = (\<Sum>i<length xs. f (xs ! i))"
  by (induction xs rule: rev_induct) (simp_all add: nth_append)

lemma arange_Suc: "arange (Suc n) = arange n @ [real n]"
  by (simp add: arange_def)

lemma length_arange: "length (arange n) = n"
  by (simp add: arange_def)

lemma sum_list_map2_arange:
  fixes f :: "real \<Rightarrow> 'a \<Rightarrow> real"
  shows "sum_list (map2 f (arange (length ys)) ys) = (\<Sum>i<length ys. f (real i) (ys ! i))"
  by (induction ys rule: rev_induct) (simp_all add: arange_Suc length_arange nth_append arange_def)

lemma sum_list_arange:
  fixes g :: "real \<Rightarrow> real"
  shows "sum_list (map g (arange n)) = (\<Sum>i<n. g (real i))"
  by (induction n) (simp_all add: arange_Suc, simp add: arange_def)

lemma sum_positions: "(\<Sum>i<n. real i) = real n * (real n - 1) / 2"
  by (induction n) (simp_all add: field_simps)

lemma mean_arange: "0 < n \<Longrightarrow> mean (arange n) = (real n - 1) / 2"
  using sum_list_arange [of "\<lambda>x. x" n]
  by (simp add: mean_def length_arange sum_positions)

lemma mean_nth: "mean ys = (\<Sum>j<length ys. ys ! j) / real (length ys)"
  using sum_list_map_nth [of "\<lambda>x. x" ys] by (simp add: mean_def)

lemma ols_slope_closed_form:
  assumes "0 < length ys"
  shows "ols_slope ys =
    (\<Sum>i<length ys. (real i - (real (length ys) - 1) / 2)
        * (ys ! i - (\<Sum>j<length ys. ys ! j) / real (length ys)))
    / (\<Sum>i<length ys. (real i - (real (length ys) - 1) / 2)\<^sup>2)"
  unfolding ols_slope_def Let_def sum_list_map2_arange sum_list_arange mean_arange [OF assms]
    mean_nth [symmetric]
  by (rule refl)


lemma least_squares_line:
  fixes x y :: "nat \<Rightarrow> real"
  assumes n: "0 < n"
      and mx: "mx = (\<Sum>i<n. x i) / real n" and my: "my = (\<Sum>i<n. y i) / real n"
      and sxx: "(\<Sum>i<n. (x i - mx)\<^sup>2) \<noteq> 0"
      and b: "b = (\<Sum>i<n. (x i - mx) * (y i - my)) / (\<Sum>i<n. (x i - mx)\<^sup>2)"
      and a: "a = my - b * mx"
  shows "(\<Sum>i<n. (y i - (a + b * x i))\<^sup>2) \<le> (\<Sum>i<n. (y i - (a' + b' * x i))\<^sup>2)"
proof -
  define r where "r i = y i - (a + b * x i)" for i
  define d where "d i = (a - a') + (b - b') * x i" for i
  have sx: "(\<Sum>i<n. x i) = real n * mx" and sy: "(\<Sum>i<n. y i) = real n * my"
    using n by (simp_all add: mx my)
  have cx: "(\<Sum>i<n. (x i - mx)) = 0"
    by (simp add: sum_subtractf sx)
  have "(\<Sum>i<n. r i) = (\<Sum>i<n. y i) - (\<Sum>i<n. a) - b * (\<Sum>i<n. x i)"
    unfolding r_def by (simp add: sum_subtractf sum.distrib sum_distrib_left)
  also have "\<dots> = 0"
    by (simp add: sx sy a algebra_simps)
  finally have r0: "(\<Sum>i<n. r i) = 0" .
  have ri: "r i = (y i - my) - b * (x i - mx)" for i
    by (simp add: r_def a algebra_simps)
  have "r i * (x i - mx) = (x i - mx) * (y i - my) - b * (x i - mx)\<^sup>2" for i
    by (simp add: ri algebra_simps power2_eq_square)
  then have "(\<Sum>i<n. r i * (x i - mx))
               = (\<Sum>i<n. (x i - mx) * (y i - my) - b * (x i - mx)\<^sup>2)"
    by simp
  also have "\<dots> = (\<Sum>i<n. (x i - mx) * (y i - my)) - b * (\<Sum>i<n. (x i - mx)\<^sup>2)"
    by (simp only: sum_subtractf sum_distrib_left)
  also have "\<dots> = 0"
    using sxx by (simp add: b)
  finally have rc: "(\<Sum>i<n. r i * (x i - mx)) = 0" .
  have "r i * x i = r i * (x i - mx) + mx * r i" for i
    by (simp add: algebra_simps)
  then have "(\<Sum>i<n. r i * x i) = (\<Sum>i<n. r i * (x i - mx) + mx * r i)"
    by simp
  also have "\<dots> = (\<Sum>i<n. r i * (x i - mx)) + mx * (\<Sum>i<n. r i)"
    by (simp only: sum.distrib sum_distrib_left)
  finally have rx: "(\<Sum>i<n. r i * x i) = 0"
    by (simp add: rc r0)
  have "r i * d i = (a - a') * r i + (b - b') * (r i * x i)" for i
    by (simp add: d_def algebra_simps)
  then have "(\<Sum>i<n. r i * d i) = (\<Sum>i<n. (a - a') * r i + (b - b') * (r i * x i))"
    by simp
  also have "\<dots> = (a - a') * (\<Sum>i<n. r i) + (b - b') * (\<Sum>i<n. r i * x i)"
    by (simp only: sum.distrib sum_distrib_left)
  finally have rd: "(\<Sum>i<n. r i * d i) = 0"
    by (simp add: r0 rx)
  have "y i - (a' + b' * x i) = r i + d i" for i
    by (simp add: r_def d_def algebra_simps)
  then have "(y i - (a' + b' * x i))\<^sup>2 = (r i)\<^sup>2 + 2 * (r i * d i) + (d i)\<^sup>2" for i
    by (simp add: power2_eq_square algebra_simps)
  then have "(\<Sum>i<n. (y i - (a' + b' * x i))\<^sup>2) = (\<Sum>i<n. (r i)\<^sup>2 + 2 * (r i * d i) + (d i)\<^sup>2)"
    by simp
  also have "\<dots> = (\<Sum>i<n. (r i)\<^sup>2) + 2 * (\<Sum>i<n. r i * d i) + (\<Sum>i<n. (d i)\<^sup>2)"
    by (simp only: sum.distrib sum_distrib_left)
  also have "\<dots> = (\<Sum>i<n. (r i)\<^sup>2) + (\<Sum>i<n. (d i)\<^sup>2)"
    by (simp add: rd)
  finally have "(\<Sum>i<n. (r i)\<^sup>2) \<le> (\<Sum>i<n. (y i - (a' + b' * x i))\<^sup>2)"
    by (simp add: sum_nonneg)
  then show ?thesis
    by (simp add: r_def)
qed

lemma positions_spread:
  assumes "2 \<le> n"
  shows "(\<Sum>i<n. (real i - (real n - 1) / 2)\<^sup>2) \<noteq> 0"
proof -
  have "(real 0 - (real n - 1) / 2)\<^sup>2 \<le> (\<Sum>i<n. (real i - (real n - 1) / 2)\<^sup>2)"
    using assms by (intro member_le_sum) auto
  moreover have "0 < (real 0 - (real n - 1) / 2)\<^sup>2"
    using assms by simp
  ultimately show ?thesis
    by linarith
qed


lemma sum_squares_nth:
  "sum_list (map (\<lambda>x. (x - mean ys)\<^sup>2) ys)
     = (\<Sum>i<length ys. (ys ! i - (\<Sum>j<length ys. ys ! j) / real (length ys))\<^sup>2)"
  unfolding sum_list_map_nth mean_nth by (rule refl)

lemma ols_least_squares:
  assumes "2 \<le> length ys"
  shows "(\<Sum>i<length ys. (ys ! i - (ols_intercept ys + ols_slope ys * real i))\<^sup>2)
           \<le> (\<Sum>i<length ys. (ys ! i - (a + b * real i))\<^sup>2)"
proof -
  have pos: "0 < length ys" and ne: "ys \<noteq> []"
    using assms by auto
  have mx: "(real (length ys) - 1) / 2 = (\<Sum>i<length ys. real i) / real (length ys)"
    using ne by (simp add: sum_positions)
  have ic: "ols_intercept ys
          = (\<Sum>j<length ys. ys ! j) / real (length ys) - ols_slope ys * ((real (length ys) - 1) / 2)"
  proof -
    have "ols_intercept ys = mean ys - ols_slope ys * ((real (length ys) - 1) / 2)"
      by (simp only: ols_intercept_def mean_arange [OF pos])
    then show ?thesis
      by (simp only: mean_nth)
  qed
  show ?thesis
    by (rule least_squares_line [OF pos mx refl positions_spread [OF assms]
          ols_slope_closed_form [OF pos] ic])
qed

lemma calculate_trend_policy:
  assumes "values = dropna (column (filter (\<lambda>r. date_max df - days * 86400 \<le> date r) df) metric)"
      and "2 \<le> length values"
  shows "\<exists>t. calculate_trend df metric days = Inr (Trend t) \<and>
           tr_trend t =
             (if \<bar>ols_slope values\<bar>
                 < 0.1 * sqrt (sum_list (map (\<lambda>x. (x - mean values)\<^sup>2) values)
                               / real (length values - 1))
              then ''stable''
              else if ols_slope values > 0 then ''increasing'' else ''decreasing'') \<and>
           tr_slope t = py_round (ols_slope values) 4 \<and>
           tr_percent_change t =
             (if hd values \<noteq> 0
              then Fin (py_round ((last values - hd values) / hd values * 100) 2) else Fin 0)"
proof -
  let ?recent = "filter (\<lambda>r. date_max df - days * 86400 \<le> date r) df"
  have ne: "df \<noteq> []"
    using assms by (auto simp: dropna_def column_def List.map_filter_simps)
  have "length values \<le> length ?recent"
    unfolding assms(1) by (rule length_dropna_column)
  then have len: "\<not> length ?recent < 2"
    using assms(2) by simp
  have "dropna (column ?recent metric) \<noteq> []"
    using assms by auto
  then have col: "has_column df metric"
    by (blast intro: has_column_filter dropna_column_has_column)
  have v: "\<not> length (dropna (column ?recent metric)) < 2"
    using assms by simp
  show ?thesis
    using ne len col v
    by (simp add: calculate_trend_def Let_def assms(1) [symmetric] trend_direction_def std_def
        nan_less_def float_div_def xf_scale_def xf_round_def py_round_def)
qed

text \<open>
  Claim C5. Let \<open>values\<close> be the non-null values of the metric in the window (the rows
  not older than \<open>days\<close> days before the latest row). With at least two of them,
  \<^verbatim>\<open>_calculate_trend\<close> returns a trend, and there is a slope with these properties. It is
  the ordinary least-squares slope of the values against their positions 0, 1, 2, ...: the
  quotient of the summed products of the centred positions and the centred values by the
  summed squares of the centred positions, and, with its intercept, the line of least summed
  squared residuals among all lines. The direction is "stable" when the magnitude of the
  slope is below 0.1 times the sample standard deviation of the values, and otherwise
  "increasing" for a positive slope and "decreasing" for any other. The reported slope is the
  slope rounded to 4 decimals, and the percent change is \<open>(end - start) / start * 100\<close>
  rounded to 2 decimals. The witness has the series 80, 79, 78, 77 (slope -1, "decreasing",
  -3.75 percent) and the series 80, 79, 79, 77, which is not on a line (slope -0.9).
\<close>

theorem trend_direction_policy:
  assumes "values = dropna (column (filter (\<lambda>r. date_max df - days * 86400 \<le> date r) df) metric)"
      and "2 \<le> length values"
  shows "\<exists>t slope intercept.
           calculate_trend df metric days = Inr (Trend t) \<and>
           slope =
             (\<Sum>i<length values. (real i - (real (length values) - 1) / 2)
                 * (values ! i - (\<Sum>j<length values. values ! j) / real (length values)))
             / (\<Sum>i<length values. (real i - (real (length values) - 1) / 2)\<^sup>2) \<and>
           (\<forall>a b. (\<Sum>i<length values. (values ! i - (intercept + slope * real i))\<^sup>2)
                    \<le> (\<Sum>i<length values. (values ! i - (a + b * real i))\<^sup>2)) \<and>
           tr_trend t =
             (if \<bar>slope\<bar>
                 < 0.1 * sqrt ((\<Sum>i<length values.
                                  (values ! i - (\<Sum>j<length values. values ! j) / real (length values))\<^sup>2)
                               / (real (length values) - 1))
              then ''stable''
              else if slope > 0 then ''increasing'' else ''decreasing'') \<and>
           tr_slope t = py_round slope 4 \<and>
           tr_percent_change t =
             (if hd values \<noteq> 0
              then Fin (py_round ((last values - hd values) / hd values * 100) 2) else Fin 0)"
proof -
  from calculate_trend_policy [OF assms] obtain t where
    t: "calculate_trend df metric days = Inr (Trend t)"
    and d: "tr_trend t =
             (if \<bar>ols_slope values\<bar>
                 < 0.1 * sqrt (sum_list (map (\<lambda>x. (x - mean values)\<^sup>2) values)
                               / real (length values - 1))
              then ''stable''
              else if ols_slope values > 0 then ''increasing'' else ''decreasing'')"
    and s: "tr_slope t = py_round (ols_slope values) 4"
    and p: "tr_percent_change t =
             (if hd values \<noteq> 0
              then Fin (py_round ((last values - hd values) / hd values * 100) 2) else Fin 0)"
    by blast
  have n1: "real (length values - 1) = real (length values) - 1"
    using assms(2) by (simp add: of_nat_diff)
  have cf: "ols_slope values =
             (\<Sum>i<length values. (real i - (real (length values) - 1) / 2)
                 * (values ! i - (\<Sum>j<length values. values ! j) / real (length values)))
             / (\<Sum>i<length values. (real i - (real (length values) - 1) / 2)\<^sup>2)"
    using assms(2) by (intro ols_slope_closed_form) auto
  have ls: "\<forall>a b. (\<Sum>i<length values. (values ! i - (ols_intercept values + ols_slope values * real i))\<^sup>2)
                    \<le> (\<Sum>i<length values. (values ! i - (a + b * real i))\<^sup>2)"
    using ols_least_squares [OF assms(2)] by blast
  have d': "tr_trend t =
             (if \<bar>ols_slope values\<bar>
                 < 0.1 * sqrt ((\<Sum>i<length values.
                                  (values ! i - (\<Sum>j<length values. values ! j) / real (length values))\<^sup>2)
                               / (real (length values) - 1))
              then ''stable''
              else if ols_slope values > 0 then ''increasing'' else ''decreasing'')"
    using d unfolding sum_squares_nth n1 .
  show ?thesis
    by (intro exI [of _ t] exI [of _ "ols_slope values"] exI [of _ "ols_intercept values"] conjI)
      (fact t cf ls d' s p)+
qed


lemma spec_trend_values:
  "dropna (column (filter (\<lambda>r. date_max spec_trend_frame - 7 * 86400 \<le> date r) spec_trend_frame)
     ''weight_kg'') = [80, 79, 78, 77]"
  by (simp add: spec_trend_frame_def weight_record_def date_max_def dropna_def column_def
      cell_def List.map_filter_simps)

lemma arange_length4: "arange (length [a, b, c, d]) = [0, 1, 2, 3]"
  by (simp add: arange_def)

lemma ols_slope_spec: "ols_slope [80, 79, 78, 77] = - 1"
  unfolding ols_slope_def Let_def arange_length4
  by (simp add: mean_def power2_eq_square)

lemma mean_spec: "mean [80, 79, 78, 77] = 157 / 2"
  by (simp add: mean_def)

lemma sqrt_spec: "\<not> 1 < 0.1 * sqrt (5 / 3)"
proof -
  have "sqrt (5 / 3) \<le> sqrt 4"
    by (rule real_sqrt_le_mono) simp
  then have "sqrt (5 / 3) \<le> 2"
    by simp
  then show ?thesis
    by simp
qed

lemma bent_trend_values:
  "dropna (column (filter (\<lambda>r. date_max bent_trend_frame - 7 * 86400 \<le> date r) bent_trend_frame)
     ''weight_kg'') = [80, 79, 79, 77]"
  by (simp add: bent_trend_frame_def weight_record_def date_max_def dropna_def column_def
      cell_def List.map_filter_simps)

lemma ols_slope_bent: "ols_slope [80, 79, 79, 77] = - 0.9"
  unfolding ols_slope_def Let_def arange_length4
  by (simp add: mean_def power2_eq_square)

lemma sum_squares_spec:
  "sum_list (map (\<lambda>x. (x - mean [80, 79, 78, 77])\<^sup>2) [80, 79, 78, 77 :: real]) = 5"
  "sum_list (map (\<lambda>x. (x - mean [80, 79, 79, 77])\<^sup>2) [80, 79, 79, 77 :: real]) = 19 / 4"
  by (simp_all add: mean_def power2_eq_square)

lemma sqrt_bent: "\<not> 0.9 < 0.1 * sqrt (19 / 4 / 3)"
proof -
  have "sqrt (19 / 4 / 3) \<le> sqrt 4"
    by (rule real_sqrt_le_mono) simp
  then have "sqrt (19 / 4 / 3) \<le> 2"
    by simp
  then show ?thesis
    by simp
qed

theorem trend_direction_policy_witness:
  "2 \<le> length [80, 79, 78, 77 :: real] \<and>
   (\<exists>t. calculate_trend spec_trend_frame ''weight_kg'' 7 = Inr (Trend t) \<and>
        tr_trend t = ''decreasing'' \<and> tr_slope t = - 1 \<and>
        tr_percent_change t = Fin (- 3.75)) \<and>
   (\<exists>t. calculate_trend bent_trend_frame ''weight_kg'' 7 = Inr (Trend t) \<and>
        tr_trend t = ''decreasing'' \<and> tr_slope t = - 0.9 \<and>
        tr_percent_change t = Fin (- 3.75))"
proof -
  have len: "2 \<le> length [a, b, c, d :: real]" for a b c d
    by simp
  have n: "real (length [a, b, c, d :: real]) - 1 = 3" for a b c d
    by simp
  have pos: "0 < length [a, b, c, d :: real]" for a b c d
    by simp
  note cf1 = ols_slope_closed_form [OF pos [of 80 79 78 77], symmetric]
  note cf2 = ols_slope_closed_form [OF pos [of 80 79 79 77], symmetric]
  have r1: "py_round (- 1) 4 = - 1" "py_round (- 0.9) 4 = - 0.9"
    by (simp_all add: py_round_def Let_def)
  have r2: "py_round ((77 - 80) / 80 * 100) 2 = - 3.75"
    by (simp add: py_round_def Let_def)
  have h: "hd [80, b, c, 77 :: real] = 80" "last [80, b, c, 77 :: real] = 77" for b c
    by simp_all
  from trend_direction_policy [OF spec_trend_values [symmetric] len]
  obtain t slope where
    t: "calculate_trend spec_trend_frame ''weight_kg'' 7 = Inr (Trend t)"
    and sl: "slope = ols_slope [80, 79, 78, 77]"
    and d: "tr_trend t = (if \<bar>slope\<bar> < 0.1 * sqrt (5 / 3) then ''stable''
                          else if slope > 0 then ''increasing'' else ''decreasing'')"
    and s: "tr_slope t = py_round slope 4"
    and p: "tr_percent_change t = Fin (py_round ((77 - 80) / 80 * 100) 2)"
    unfolding cf1 sum_squares_nth [symmetric]
    unfolding sum_squares_spec n h
    by auto
  from trend_direction_policy [OF bent_trend_values [symmetric] len]
  obtain t' slope' where
    t': "calculate_trend bent_trend_frame ''weight_kg'' 7 = Inr (Trend t')"
    and sl': "slope' = ols_slope [80, 79, 79, 77]"
    and d': "tr_trend t' = (if \<bar>slope'\<bar> < 0.1 * sqrt (19 / 4 / 3) then ''stable''
                          else if slope' > 0 then ''increasing'' else ''decreasing'')"
    and s': "tr_slope t' = py_round slope' 4"
    and p': "tr_percent_change t' = Fin (py_round ((77 - 80) / 80 * 100) 2)"
    unfolding cf2 sum_squares_nth [symmetric]
    unfolding sum_squares_spec n h
    by auto
  have c1: "\<exists>t. calculate_trend spec_trend_frame ''weight_kg'' 7 = Inr (Trend t) \<and>
        tr_trend t = ''decreasing'' \<and> tr_slope t = - 1 \<and>
        tr_percent_change t = Fin (- 3.75)"
    using t d s p sqrt_spec unfolding sl ols_slope_spec r1 r2 by auto
  have c2: "\<exists>t. calculate_trend bent_trend_frame ''weight_kg'' 7 = Inr (Trend t) \<and>
        tr_trend t = ''decreasing'' \<and> tr_slope t = - 0.9 \<and>
        tr_percent_change t = Fin (- 3.75)"
    using t' d' s' p' sqrt_bent unfolding sl' ols_slope_bent r1 r2 by auto
  show ?thesis
    using len c1 c2 by blast
qed

subsection \<open>Percent changes and the zero baseline\<close>

lemma py_round_zero: "py_round 0 n = 0"
  by (simp add: py_round_def)

lemma percent_of_values:
  "(if (s::real) \<noteq> 0 then xf_round (xf_scale (float_div (Some (e - s)) (Some s)) 100) 2
    else Fin 0) =
   (if s \<noteq> 0 then Fin (py_round ((e - s) / s * 100) 2) else Fin 0)"
  by (simp add: float_div_def xf_scale_def xf_round_def)

lemma percent_of_values_round:
  "xf_round (if (s::real) \<noteq> 0 then xf_scale (float_div (Some (e - s)) (Some s)) 100
             else Fin 0) 2 =
   (if s \<noteq> 0 then Fin (py_round ((e - s) / s * 100) 2) else Fin 0)"
  by (simp add: float_div_def xf_scale_def xf_round_def py_round_zero)

lemma calculate_trend_percent:
  assumes "calculate_trend df metric days = Inr (Trend t)"
  shows "tr_percent_change t =
           (let values = dropna (column (filter (\<lambda>r. date_max df - days * 86400 \<le> date r) df) metric)
            in if hd values \<noteq> 0
               then Fin (py_round ((last values - hd values) / hd values * 100) 2) else Fin 0)"
proof -
  let ?vals = "dropna (column (filter (\<lambda>r. date_max df - days * 86400 \<le> date r) df) metric)"
  have ne: "df \<noteq> []"
    using assms by (auto simp: calculate_trend_def)
  from assms have "tr_percent_change t =
      xf_round (if hd ?vals \<noteq> 0
                then xf_scale (float_div (Some (last ?vals - hd ?vals)) (Some (hd ?vals))) 100
                else Fin 0) 2"
    unfolding calculate_trend_def Let_def if_not_P [OF ne]
    by (auto split: if_splits)
  also have "\<dots> = (if hd ?vals \<noteq> 0
                    then Fin (py_round ((last ?vals - hd ?vals) / hd ?vals * 100) 2)
                    else Fin 0)"
    by (rule percent_of_values_round)
  finally show ?thesis
    by (simp add: Let_def)
qed

lemma analyze_metric_trend_percent:
  assumes "analyze_metric_trend df metric = Inr (Dict a)"
  shows "an_total_change_percent a =
           (let values = dropna (column df metric)
            in if hd values \<noteq> 0
               then Fin (py_round ((last values - hd values) / hd values * 100) 2) else Fin 0)"
proof -
  let ?vals = "dropna (column df metric)"
  from assms have "an_total_change_percent a =
      (if hd ?vals \<noteq> 0
       then xf_round (xf_scale (float_div (Some (last ?vals - hd ?vals)) (Some (hd ?vals))) 100) 2
       else Fin 0)"
    unfolding analyze_metric_trend_def Let_def
    by (auto split: if_splits)
  then show ?thesis
    unfolding percent_of_values Let_def .
qed

lemma period_change_entry:
  assumes "(metric, c) \<in> set (calculate_period_changes df)"
  shows "ch_percent c =
           xf_round (if nan_ne (cell (hd df) metric) (Some 0)
                     then xf_scale (float_div (nan_sub (cell (last df) metric) (cell (hd df) metric))
                                      (cell (hd df) metric)) 100
                     else Fin 0) 2"
  using assms unfolding calculate_period_changes_def Let_def
  by (auto split: if_splits)

lemma period_change_percent:
  assumes "(metric, c) \<in> set (calculate_period_changes df)"
  shows "ch_percent c =
           (case cell (hd df) metric of
              None \<Rightarrow> NaN
            | Some s \<Rightarrow>
                if s = 0 then Fin 0
                else (case cell (last df) metric of
                        None \<Rightarrow> NaN
                      | Some e \<Rightarrow> Fin (py_round ((e - s) / s * 100) 2)))"
  unfolding period_change_entry [OF assms]
  by (cases "cell (hd df) metric"; cases "cell (last df) metric")
    (simp_all add: nan_ne_def nan_sub_def nan_lift2_def float_div_def xf_scale_def xf_round_def
      py_round_zero)

text \<open>
  Claim C4. In the windowed trend, the full-series metric analysis and the period changes, a
  baseline (start) value of exactly 0 gives a percent change of exactly 0: the division is
  guarded by \<^verbatim>\<open>start != 0\<close>, so it is never taken on a zero baseline. The percent change
  of a trend and of a metric analysis is always finite, and that of a period change is never
  an infinity (it is NaN only when a cell it reads is NaN).
\<close>

theorem zero_baseline_percent_change:
  "(\<forall>t. calculate_trend df metric days = Inr (Trend t) \<longrightarrow>
        is_finite (tr_percent_change t) \<and>
        (hd (dropna (column (filter (\<lambda>r. date_max df - days * 86400 \<le> date r) df) metric)) = 0
           \<longrightarrow> tr_percent_change t = Fin 0)) \<and>
   (\<forall>a. analyze_metric_trend df metric = Inr (Dict a) \<longrightarrow>
        is_finite (an_total_change_percent a) \<and>
        (hd (dropna (column df metric)) = 0 \<longrightarrow> an_total_change_percent a = Fin 0)) \<and>
   (\<forall>c. (metric, c) \<in> set (calculate_period_changes df) \<longrightarrow>
        ch_percent c \<noteq> PosInf \<and> ch_percent c \<noteq> NegInf \<and>
        (cell (hd df) metric = Some 0 \<longrightarrow> ch_percent c = Fin 0))"
proof (intro conjI allI impI)
  fix t assume "calculate_trend df metric days = Inr (Trend t)"
  note p = calculate_trend_percent [OF this]
  show "is_finite (tr_percent_change t)"
    unfolding p by (simp add: Let_def is_finite_def)
  show "tr_percent_change t = Fin 0"
    if "hd (dropna (column (filter (\<lambda>r. date_max df - days * 86400 \<le> date r) df) metric)) = 0"
    unfolding p using that by (simp add: Let_def)
next
  fix a assume "analyze_metric_trend df metric = Inr (Dict a)"
  note p = analyze_metric_trend_percent [OF this]
  show "is_finite (an_total_change_percent a)"
    unfolding p by (simp add: Let_def is_finite_def)
  show "an_total_change_percent a = Fin 0" if "hd (dropna (column df metric)) = 0"
    unfolding p using that by (simp add: Let_def)
next
  fix c assume "(metric, c) \<in> set (calculate_period_changes df)"
  note p = period_change_percent [OF this]
  show "ch_percent c \<noteq> PosInf" unfolding p by (simp split: option.splits)
  show "ch_percent c \<noteq> NegInf" unfolding p by (simp split: option.splits)
  show "ch_percent c = Fin 0" if "cell (hd df) metric = Some 0"
    unfolding p using that by simp
qed


lemma calculate_trend_Trend:
  assumes "2 \<le> length (dropna (column (filter (\<lambda>r. date_max df - days * 86400 \<le> date r) df) metric))"
  shows "\<exists>t. calculate_trend df metric days = Inr (Trend t)"
proof -
  let ?recent = "filter (\<lambda>r. date_max df - days * 86400 \<le> date r) df"
  have ne: "df \<noteq> []"
    using assms by (auto simp: dropna_def column_def List.map_filter_simps)
  have "length (dropna (column ?recent metric)) \<le> length ?recent"
    by (rule length_dropna_column)
  then have len: "\<not> length ?recent < 2"
    using assms by simp
  have "dropna (column ?recent metric) \<noteq> []"
    using assms by auto
  then have col: "has_column df metric"
    by (blast intro: has_column_filter dropna_column_has_column)
  have v: "\<not> length (dropna (column ?recent metric)) < 2"
    using assms by simp
  show ?thesis
    using ne len col v by (simp add: calculate_trend_def Let_def)
qed

lemma analyze_metric_trend_Dict:
  assumes "2 \<le> length (dropna (column df metric))"
  shows "\<exists>a. analyze_metric_trend df metric = Inr (Dict a)"
proof -
  have "dropna (column df metric) \<noteq> []"
    using assms by auto
  then have "has_column df metric"
    by (rule dropna_column_has_column)
  then show ?thesis
    using assms by (simp add: analyze_metric_trend_def Let_def)
qed

lemma zero_baseline_values:
  "dropna (column zero_baseline_frame ''weight_kg'') = [0, 5]"
  "dropna (column (filter (\<lambda>r. date_max zero_baseline_frame - 7 * 86400 \<le> date r) zero_baseline_frame) ''weight_kg'') = [0, 5]"
  "has_column zero_baseline_frame ''weight_kg''"
  "cell (hd zero_baseline_frame) ''weight_kg'' = Some 0"
  by (simp_all add: zero_baseline_frame_def weight_record_def date_max_def dropna_def column_def
      cell_def has_column_def List.map_filter_simps)

lemma zero_baseline_columns:
  "filter (has_column zero_baseline_frame) key_metrics = [''weight_kg'']"
  by (simp add: key_metrics_def has_column_def zero_baseline_frame_def weight_record_def)

lemma zero_baseline_period_changes:
  "\<exists>c. (''weight_kg'', c) \<in> set (calculate_period_changes zero_baseline_frame)"
proof -
  have l: "\<not> length zero_baseline_frame < 2"
    by (simp add: zero_baseline_frame_def)
  show ?thesis
    unfolding calculate_period_changes_def Let_def zero_baseline_columns if_not_P [OF l]
    by (simp del: hd_conv_nth last_conv_nth)
qed

theorem zero_baseline_percent_change_witness:
  "hd (dropna (column zero_baseline_frame ''weight_kg'')) = 0 \<and>
   cell (hd zero_baseline_frame) ''weight_kg'' = Some 0 \<and>
   (\<exists>t. calculate_trend zero_baseline_frame ''weight_kg'' 7 = Inr (Trend t) \<and>
        tr_percent_change t = Fin 0) \<and>
   (\<exists>a. analyze_metric_trend zero_baseline_frame ''weight_kg'' = Inr (Dict a) \<and>
        an_total_change_percent a = Fin 0) \<and>
   (\<exists>c. (''weight_kg'', c) \<in> set (calculate_period_changes zero_baseline_frame) \<and>
        ch_percent c = Fin 0)"
proof -
  note th = zero_baseline_percent_change [of zero_baseline_frame "''weight_kg''" 7]
  have v1: "dropna (column (filter (\<lambda>r. date_max zero_baseline_frame - 7 * 86400 \<le> date r)
            zero_baseline_frame) ''weight_kg'') = [0, 5]"
    by (rule zero_baseline_values)
  have v2: "dropna (column zero_baseline_frame ''weight_kg'') = [0, 5]"
    by (rule zero_baseline_values)
  have h1: "hd (dropna (column (filter (\<lambda>r. date_max zero_baseline_frame - 7 * 86400 \<le> date r)
            zero_baseline_frame) ''weight_kg'')) = 0"
    by (subst v1) simp
  have h2: "hd (dropna (column zero_baseline_frame ''weight_kg'')) = 0"
    by (subst v2) simp
  have h3: "cell (hd zero_baseline_frame) ''weight_kg'' = Some 0"
    by (rule zero_baseline_values)
  have "2 \<le> length (dropna (column (filter (\<lambda>r. date_max zero_baseline_frame - 7 * 86400 \<le> date r)
            zero_baseline_frame) ''weight_kg''))"
    by (subst v1) simp
  from calculate_trend_Trend [OF this]
  obtain t where t: "calculate_trend zero_baseline_frame ''weight_kg'' 7 = Inr (Trend t)"
    by (rule exE)
  have "2 \<le> length (dropna (column zero_baseline_frame ''weight_kg''))"
    by (subst v2) simp
  from analyze_metric_trend_Dict [OF this]
  obtain a where a: "analyze_metric_trend zero_baseline_frame ''weight_kg'' = Inr (Dict a)"
    by (rule exE)
  from zero_baseline_period_changes
  obtain c where c: "(''weight_kg'', c) \<in> set (calculate_period_changes zero_baseline_frame)"
    by (rule exE)
  note p1 = th [THEN conjunct1, rule_format, OF t, THEN conjunct2, rule_format, OF h1]
  note p2 = th [THEN conjunct2, THEN conjunct1, rule_format, OF a, THEN conjunct2,
      rule_format, OF h2]
  note p3 = th [THEN conjunct2, THEN conjunct2, rule_format, OF c, THEN conjunct2,
      THEN conjunct2, rule_format, OF h3]
  have c3: "\<exists>t. calculate_trend zero_baseline_frame ''weight_kg'' 7 = Inr (Trend t) \<and>
        tr_percent_change t = Fin 0"
    using t p1 by (intro exI conjI)
  have c4: "\<exists>a. analyze_metric_trend zero_baseline_frame ''weight_kg'' = Inr (Dict a) \<and>
        an_total_change_percent a = Fin 0"
    using a p2 by (intro exI conjI)
  have c5: "\<exists>c. (''weight_kg'', c) \<in> set (calculate_period_changes zero_baseline_frame) \<and>
        ch_percent c = Fin 0"
    using c p3 by (intro exI conjI)
  show ?thesis
    by (intro conjI) (fact h2 h3 c3 c4 c5)+
qed

subsection \<open>Achievements\<close>

lemma cell_has_column:
  assumes "df \<noteq> []" "cell (hd df) m = Some v"
  shows "has_column df m"
proof -
  from assms(2) have "entries (hd df) m \<noteq> None"
    by (auto simp: cell_def split: option.splits)
  moreover have "hd df \<in> set df"
    using assms(1) by simp
  ultimately show ?thesis
    unfolding has_column_def list_ex_iff by blast
qed

text \<open>
  Claim C2. For a frame of at least two rows whose first and last rows have weight, body fat
  and muscle mass, \<^verbatim>\<open>_identify_achievements\<close> compares the last row with the first by
  strict inequalities: a weight change below -5 kg is a weight loss ("major" below -10 kg,
  else "significant"), otherwise a weight change above 2 kg is a weight gain; a body-fat
  change below -2 is a fat loss ("major" below -5); a muscle-mass change above 1 kg is a
  muscle gain. The witness has the changes -5.0 (nothing), -5.01 ("significant") and
  -10.01 ("major").
\<close>

theorem achievement_thresholds:
  assumes "2 \<le> length df"
      and "cell (hd df) ''weight_kg'' = Some w0" and "cell (last df) ''weight_kg'' = Some w1"
      and "cell (hd df) ''body_fat_percent'' = Some f0"
      and "cell (last df) ''body_fat_percent'' = Some f1"
      and "cell (hd df) ''muscle_mass_kg'' = Some m0"
      and "cell (last df) ''muscle_mass_kg'' = Some m1"
  shows "identify_achievements df =
     (if w1 - w0 < - 5
      then [\<lparr> ach_type = ''weight_loss'',
               ach_description = ''Lost '' @ format_1f \<bar>w1 - w0\<bar> @ '' kg'',
               ach_value = \<bar>w1 - w0\<bar>,
               ach_category = (if w1 - w0 < - 10 then ''major'' else ''significant'') \<rparr>]
      else if w1 - w0 > 2
      then [\<lparr> ach_type = ''weight_gain'',
               ach_description = ''Gained '' @ format_1f (w1 - w0) @ '' kg'',
               ach_value = w1 - w0,
               ach_category = ''muscle_building'' \<rparr>]
      else [])
     @ (if f1 - f0 < - 2
        then [\<lparr> ach_type = ''fat_loss'',
                 ach_description = ''Reduced body fat by '' @ format_1f \<bar>f1 - f0\<bar> @ ''%'',
                 ach_value = \<bar>f1 - f0\<bar>,
                 ach_category = (if f1 - f0 < - 5 then ''major'' else ''significant'') \<rparr>]
        else [])
     @ (if m1 - m0 > 1
        then [\<lparr> ach_type = ''muscle_gain'',
                 ach_description = ''Gained '' @ format_1f (m1 - m0) @ '' kg muscle mass'',
                 ach_value = m1 - m0,
                 ach_category = ''muscle_building'' \<rparr>]
        else [])"
proof -
  have ne: "df \<noteq> []" and len: "\<not> length df < 2"
    using assms(1) by auto
  have cols: "has_column df ''weight_kg''" "has_column df ''body_fat_percent''"
    "has_column df ''muscle_mass_kg''"
    using ne assms by (blast intro: cell_has_column)+
  have w: "(\<bar>w1 - w0\<bar> > 10) = (w1 - w0 < - 10)" if "w1 - w0 < - 5"
    using that by linarith
  have f: "(\<bar>f1 - f0\<bar> > 5) = (f1 - f0 < - 5)" if "f1 - f0 < - 2"
    using that by linarith
  show ?thesis
    unfolding identify_achievements_def if_not_P [OF len] if_P [OF cols(1)] if_P [OF cols(2)]
      if_P [OF cols(3)] assms(2-7) nan_sub_def nan_lift2_def option.case
    using w f by (simp del: hd_conv_nth last_conv_nth)
qed


lemma progress_frame_cells:
  "2 \<le> length (progress_frame w f m)"
  "cell (hd (progress_frame w f m)) ''weight_kg'' = Some 80"
  "cell (last (progress_frame w f m)) ''weight_kg'' = Some w"
  "cell (hd (progress_frame w f m)) ''body_fat_percent'' = Some 20"
  "cell (last (progress_frame w f m)) ''body_fat_percent'' = Some f"
  "cell (hd (progress_frame w f m)) ''muscle_mass_kg'' = Some 30"
  "cell (last (progress_frame w f m)) ''muscle_mass_kg'' = Some m"
  by (simp_all add: progress_frame_def body_record_def cell_def)

theorem achievement_thresholds_witness:
  "2 \<le> length (progress_frame 75 20 30) \<and>
   identify_achievements (progress_frame 75 20 30) = [] \<and>
   map (\<lambda>a. (ach_type a, ach_value a, ach_category a))
     (identify_achievements (progress_frame 74.99 20 30))
     = [(''weight_loss'', 5.01, ''significant'')] \<and>
   map (\<lambda>a. (ach_type a, ach_value a, ach_category a))
     (identify_achievements (progress_frame 69.99 20 30))
     = [(''weight_loss'', 10.01, ''major'')] \<and>
   map (\<lambda>a. (ach_type a, ach_value a, ach_category a))
     (identify_achievements (progress_frame 82.5 17.5 31.5))
     = [(''weight_gain'', 2.5, ''muscle_building''), (''fat_loss'', 2.5, ''significant''),
        (''muscle_gain'', 1.5, ''muscle_building'')] \<and>
   map (\<lambda>a. (ach_type a, ach_value a, ach_category a))
     (identify_achievements (progress_frame 80 14.5 30))
     = [(''fat_loss'', 5.5, ''major'')]"
proof -
  note th = achievement_thresholds [OF progress_frame_cells]
  show ?thesis
    unfolding th by (simp add: progress_frame_cells)
qed

subsection \<open>Health insights\<close>

text \<open>
  Claim C9, as the claim states it, fails: a series of one measurement gets no insight,
  whatever the measurement is, while a series of two with the same latest record gets the
  insights of that record. \<^verbatim>\<open>_generate_health_insights\<close> returns the empty list for
  fewer than two rows.
\<close>

theorem health_insights_counterexample:
  "last [insight_record 86400 22 18 55] = last [insight_record 0 31 30 40, insight_record 86400 22 18 55] \<and>
   generate_health_insights [insight_record 86400 22 18 55] = [] \<and>
   generate_health_insights [insight_record 0 31 30 40, insight_record 86400 22 18 55] =
     [''Your BMI is in the healthy range. Great job maintaining a healthy weight!'',
      ''Good body fat percentage. You're in the fitness range.'']"
  by (simp add: generate_health_insights_def Let_def has_column_def insight_record_def cell_def
      nan_less_def nan_le_def)

text \<open>
  Claim C9, amended. For a series of fewer than two measurements
  \<^verbatim>\<open>_generate_health_insights\<close> returns no insight. For a series of at least two, the
  advisory strings are determined by the latest row of the frame alone, that is by the BMI,
  the body-fat percentage and the body-water percentage of the latest record, where a column
  of the frame that the latest record lacks reads as NaN and a column that no record has is
  skipped. The BMI below 18.5 is underweight, from 18.5 below 25 healthy, from 25 below 30
  overweight, and from 30 on, or NaN, obese. The body water below 50 is low and above 65 high.
  The body fat is banded below 10, from 10 to 15, from 16 to 20 and above 25. A NaN body fat or
  body water gives no sentence.
\<close>

theorem health_insights_of_latest:
  "generate_health_insights df =
     (if length df < 2 then []
      else
        (if has_column df ''bmi''
         then (case cell (last df) ''bmi'' of
                 None \<Rightarrow>
                   [''Your BMI indicates obesity. Consider consulting a healthcare professional.'']
               | Some bmi \<Rightarrow>
                   [if bmi < 18.5
                    then ''Your BMI indicates you're underweight. Consider consulting a nutritionist.''
                    else if bmi < 25
                    then ''Your BMI is in the healthy range. Great job maintaining a healthy weight!''
                    else if bmi < 30
                    then ''Your BMI indicates you're overweight. Focus on creating a caloric deficit.''
                    else ''Your BMI indicates obesity. Consider consulting a healthcare professional.''])
         else [])
        @ (if has_column df ''body_fat_percent''
           then (case cell (last df) ''body_fat_percent'' of
                   None \<Rightarrow> []
                 | Some body_fat \<Rightarrow>
                     if body_fat < 10
                     then [''Your body fat is very low. Ensure you're maintaining adequate nutrition.'']
                     else if body_fat \<le> 15
                     then [''Excellent body fat percentage! You're in athletic range.'']
                     else if 16 \<le> body_fat \<and> body_fat \<le> 20
                     then [''Good body fat percentage. You're in the fitness range.'']
                     else if 25 < body_fat
                     then [''Consider focusing on fat loss through diet and cardio exercise.'']
                     else [])
           else [])
        @ (if has_column df ''body_water_percent''
           then (case cell (last df) ''body_water_percent'' of
                   None \<Rightarrow> []
                 | Some water_pct \<Rightarrow>
                     if water_pct < 50
                     then [''Your body water percentage seems low. Ensure adequate hydration.'']
                     else if 65 < water_pct
                     then [''Your body water percentage is high, which is generally positive.'']
                     else [])
           else []))"
proof (cases "length df < 2")
  case True
  then show ?thesis
    by (simp add: generate_health_insights_def)
next
  case False
  have b: "(let bmi = c
            in if nan_less bmi (Some 18.5) then [s1]
               else if nan_le (Some 18.5) bmi \<and> nan_less bmi (Some 25) then [s2]
               else if nan_le (Some 25) bmi \<and> nan_less bmi (Some 30) then [s3]
               else [s4]) =
           (case c of None \<Rightarrow> [s4]
            | Some bmi \<Rightarrow> [if bmi < 18.5 then s1 else if bmi < 25 then s2
                            else if bmi < 30 then s3 else s4])"
    for c :: fval and s1 s2 s3 s4 :: string
    by (cases c) (auto simp: nan_less_def nan_le_def)
  have f: "(let body_fat = c
            in if nan_less body_fat (Some 10) then [s1]
               else if nan_le (Some 10) body_fat \<and> nan_le body_fat (Some 15) then [s2]
               else if nan_le (Some 16) body_fat \<and> nan_le body_fat (Some 20) then [s3]
               else if nan_less (Some 25) body_fat then [s4]
               else []) =
           (case c of None \<Rightarrow> []
            | Some body_fat \<Rightarrow>
                if body_fat < 10 then [s1]
                else if body_fat \<le> 15 then [s2]
                else if 16 \<le> body_fat \<and> body_fat \<le> 20 then [s3]
                else if 25 < body_fat then [s4]
                else [])"
    for c :: fval and s1 s2 s3 s4 :: string
    by (cases c) (auto simp: nan_less_def nan_le_def)
  have w: "(let water_pct = c
            in if nan_less water_pct (Some 50) then [s1]
               else if nan_less (Some 65) water_pct then [s2]
               else []) =
           (case c of None \<Rightarrow> []
            | Some water_pct \<Rightarrow>
                if water_pct < 50 then [s1] else if 65 < water_pct then [s2] else [])"
    for c :: fval and s1 s2 :: string
    by (cases c) (auto simp: nan_less_def nan_le_def)
  show ?thesis
    unfolding generate_health_insights_def if_not_P [OF False] Let_def [of "last df"] b f w
    by (rule refl)
qed


theorem health_insights_of_latest_witness:
  "generate_health_insights [insight_record 86400 22 18 55] = [] \<and>
   generate_health_insights (insight_frame 22 18 55) =
     [''Your BMI is in the healthy range. Great job maintaining a healthy weight!'',
      ''Good body fat percentage. You're in the fitness range.''] \<and>
   generate_health_insights (insight_frame 18.5 9 49) =
     [''Your BMI is in the healthy range. Great job maintaining a healthy weight!'',
      ''Your body fat is very low. Ensure you're maintaining adequate nutrition.'',
      ''Your body water percentage seems low. Ensure adequate hydration.''] \<and>
   generate_health_insights (insight_frame 30 26 66) =
     [''Your BMI indicates obesity. Consider consulting a healthcare professional.'',
      ''Consider focusing on fat loss through diet and cardio exercise.'',
      ''Your body water percentage is high, which is generally positive.''] \<and>
   generate_health_insights [nan_bmi_record 0, nan_bmi_record 86400] =
     [''Your BMI indicates obesity. Consider consulting a healthcare professional.''] \<and>
   generate_health_insights [insight_record 0 22 18 55, weight_record 86400 80] =
     [''Your BMI indicates obesity. Consider consulting a healthcare professional.''] \<and>
   generate_health_insights [weight_record 0 81, weight_record 86400 80] = []"
  unfolding health_insights_of_latest
  by (simp add: insight_frame_def insight_record_def nan_bmi_record_def weight_record_def
      cell_def has_column_def)

subsection \<open>The prediction batch\<close>

lemma predict_metric_None_iff:
  "(predict_metric df metric days_ahead = None) =
     (\<not> has_column df metric \<or> length (dropna (column df metric)) < 5 \<or> days_ahead \<le> 0)"
  by (simp add: predict_metric_def Let_def)

lemma map_fst_map_filter:
  assumes "\<And>x. x \<in> set xs \<Longrightarrow> P x \<Longrightarrow> g x \<noteq> None"
  shows "map fst (List.map_filter (\<lambda>x. if P x then map_option (\<lambda>p. (x, p)) (g x) else None) xs)
           = filter P xs"
  using assms
proof (induction xs)
  case Nil
  then show ?case
    by (simp add: List.map_filter_simps)
next
  case (Cons a xs)
  then have ih: "map fst (List.map_filter (\<lambda>x. if P x then map_option (\<lambda>p. (x, p)) (g x) else None) xs)
                   = filter P xs"
    by simp
  show ?case
  proof (cases "P a")
    case True
    with Cons.prems obtain p where "g a = Some p"
      by fastforce
    with True ih show ?thesis
      by (simp add: List.map_filter_simps)
  next
    case False
    with ih show ?thesis
      by (simp add: List.map_filter_simps)
  qed
qed

lemma batch_prediction_keys:
  assumes "10 \<le> length (get_body_composition_data store 90)" and "0 < days_ahead"
  shows "\<exists>res. get_progress_predictions store days_ahead = Inr res \<and>
           map fst (pp_predictions res) =
             filter (\<lambda>m. 5 < length (dropna (column (sort_values (get_body_composition_data store 90)) m)))
               metrics_to_predict"
proof -
  let ?df = "sort_values (get_body_composition_data store 90)"
  have col: "has_column ?df m" if "5 < length (dropna (column ?df m))" for m
    using that by (intro dropna_column_has_column) auto
  have "map fst (List.map_filter
          (\<lambda>metric. if has_column ?df metric \<and> 5 < length (dropna (column ?df metric))
                    then map_option (\<lambda>prediction. (metric, prediction))
                           (predict_metric ?df metric days_ahead)
                    else None) metrics_to_predict)
        = filter (\<lambda>m. has_column ?df m \<and> 5 < length (dropna (column ?df m))) metrics_to_predict"
    by (rule map_fst_map_filter) (use assms(2) in \<open>simp add: predict_metric_None_iff\<close>)
  also have "\<dots> = filter (\<lambda>m. 5 < length (dropna (column ?df m))) metrics_to_predict"
    using col by (intro filter_cong) auto
  finally show ?thesis
    using assms(1) by (simp add: get_progress_predictions_def Let_def)
qed

lemma five_point_sorted:
  "sort_values (get_body_composition_data five_point_store 90) = rev five_point_store"
  by (simp add: sort_values_def get_body_composition_data_def five_point_store_def wb_record_def)

lemma five_point_columns:
  "dropna (column (rev five_point_store) ''weight_kg'') = [79, 78, 77, 76, 75]"
  "dropna (column (rev five_point_store) ''bmi'') = [25, 25, 25, 24, 24, 24, 24, 23, 23, 23]"
  "dropna (column (rev five_point_store) ''body_fat_percent'') = []"
  "dropna (column (rev five_point_store) ''muscle_mass_kg'') = []"
  by (simp_all add: five_point_store_def wb_record_def column_def cell_def dropna_def
      List.map_filter_simps)

text \<open>
  Claim C3 at a batch of ten measurements of which exactly five have a weight: the weight
  has the five non-null points that \<^verbatim>\<open>_predict_metric\<close> asks for, and
  \<^verbatim>\<open>_predict_metric\<close> does predict it on the sorted frame, but
  \<^verbatim>\<open>get_progress_predictions\<close> asks for more than five
  (\<^verbatim>\<open>notna().sum() > 5\<close>) and leaves the weight out of its result, which holds the
  BMI alone.
\<close>

theorem prediction_batch_five_points:
  "length (dropna (column (sort_values (get_body_composition_data five_point_store 90))
     ''weight_kg'')) = 5 \<and>
   predict_metric (sort_values (get_body_composition_data five_point_store 90)) ''weight_kg'' 30
     \<noteq> None \<and>
   (\<exists>res. get_progress_predictions five_point_store 30 = Inr res \<and>
          map fst (pp_predictions res) = [''bmi''])"
proof -
  have len: "10 \<le> length (get_body_composition_data five_point_store 90)"
    by (simp add: get_body_composition_data_def five_point_store_def)
  have "has_column (rev five_point_store) ''weight_kg''"
    by (rule dropna_column_has_column) (simp add: five_point_columns)
  then have p: "predict_metric (rev five_point_store) ''weight_kg'' 30 \<noteq> None"
    by (simp add: predict_metric_None_iff five_point_columns)
  from batch_prediction_keys [OF len, of 30]
  show ?thesis
    unfolding five_point_sorted using p
    by (simp add: five_point_columns metrics_to_predict_def)
qed

subsection \<open>Change velocity\<close>

lemma same_day_rows:
  "has_column same_day_frame ''weight_kg''"
  "filter (\<lambda>r. cell r ''weight_kg'' \<noteq> None) same_day_frame = same_day_frame"
  "dropna (column same_day_frame ''weight_kg'') = [80, 81, 82]"
  "map date same_day_frame = [28800, 43200, 64800]"
  by (simp_all add: same_day_frame_def weight_record_def has_column_def cell_def column_def
      dropna_def List.map_filter_simps)

lemma same_day_rates:
  "xf_dropna (map2 (\<lambda>c t. float_div (Some c) (Some (real_of_int t))) (diffs [80, 81, 82])
     (map2 (\<lambda>a b. (b - a) div 86400) [28800, 43200, 64800] (tl [28800, 43200, 64800])))
   = [PosInf, PosInf]"
  by (simp add: diffs_def float_div_def xf_dropna_def)

text \<open>
  Claim C10. The quotient of the value difference by the whole-day difference in
  \<^verbatim>\<open>_calculate_change_velocity\<close> has no guard against a day difference of 0: on three
  weights measured on one day (a series with three non-null points, consecutive ones zero
  days apart) both daily rates are divisions by zero, and the reported average, maximum and
  minimum daily change are all infinite (the acceleration is NaN).
\<close>

theorem change_velocity_same_day:
  "3 \<le> length (dropna (column same_day_frame ''weight_kg'')) \<and>
   (date (same_day_frame ! 1) - date (same_day_frame ! 0)) div 86400 = 0 \<and>
   calculate_change_velocity same_day_frame ''weight_kg'' =
     Inr (Dict \<lparr> v_avg_daily_change = PosInf, v_max_daily_change = PosInf,
                  v_min_daily_change = PosInf, v_acceleration = NaN \<rparr>) \<and>
   \<not> is_finite PosInf"
proof -
  have "calculate_change_velocity same_day_frame ''weight_kg'' =
     Inr (Dict \<lparr> v_avg_daily_change = PosInf, v_max_daily_change = PosInf,
                  v_min_daily_change = PosInf, v_acceleration = NaN \<rparr>)"
    unfolding calculate_change_velocity_def Let_def same_day_rows same_day_rates
    by (simp add: same_day_rows(1) xf_mean_def xf_max_def xf_min_def xf_diffs_def xf_dropna_def xf_add_def
        xf_sub_def xf_neg_def xf_less_def xf_scale_def xf_round_def)
  moreover have "(date (same_day_frame ! 1) - date (same_day_frame ! 0)) div 86400 = 0"
    by (simp add: same_day_frame_def weight_record_def)
  ultimately show ?thesis
    by (simp add: same_day_rows is_finite_def)
qed

subsection \<open>Correlations\<close>




























subsection \<open>The order of the returned records\<close>






















end
